theory Spec2Isabelle
  imports Complex_Main
begin

section \<open>The team dashboard endpoint of \<^verbatim>\<open>main.py\<close>\<close>

text \<open>
  The development embeds the function \<^verbatim>\<open>team_dashboard\<close> of \<^verbatim>\<open>main.py\<close>: the loop that
  synthesises eight sprint records, the six KPIs computed from them, the constant scope
  summary and the reversal of the four series.

  Conventions of the embedding:
  \<^item> Python's unbounded \<^verbatim>\<open>int\<close> is \<^typ>\<open>int\<close>; \<^verbatim>\<open>%\<close> with a positive modulus is \<open>mod\<close>.
  \<^item> Python's \<^verbatim>\<open>float\<close> is read as an exact real number (\<^typ>\<open>real\<close>): an \<^verbatim>\<open>int\<close> stored in a
    \<^verbatim>\<open>float\<close> field is its image under \<open>of_int\<close>, \<^verbatim>\<open>/\<close> is exact division and
    \<^verbatim>\<open>round(x, n)\<close> rounds to \<open>n\<close> decimals, ties to the even digit. Binary rounding error is
    not part of the model.
  \<^item> A \<^verbatim>\<open>date\<close> is its proleptic Gregorian ordinal; \<^verbatim>\<open>date.today()\<close> is the explicit
    parameter \<open>today\<close>.
  \<^item> An exception is a value of type \<open>error\<close>, returned on the left of a sum.
\<close>

subsection \<open>Library functions of Python used by the endpoint\<close>

datatype error = OverflowError | ZeroDivisionError

type_synonym date = int

definition date_min :: date where
  "date_min = 1"

definition date_max :: date where
  "date_max = 3652059"

text \<open>\<^verbatim>\<open>timedelta(weeks=w, days=d)\<close>, as a number of days.\<close>

definition timedelta :: "int \<Rightarrow> int \<Rightarrow> int" where
  "timedelta weeks days = 7 * weeks + days"

text \<open>\<^verbatim>\<open>date + timedelta\<close> and \<^verbatim>\<open>date - timedelta\<close> raise \<^verbatim>\<open>OverflowError\<close> outside
  \<^verbatim>\<open>date.min .. date.max\<close>.\<close>

definition date_add :: "date \<Rightarrow> int \<Rightarrow> error + date" where
  "date_add d delta =
     (if date_min \<le> d + delta \<and> d + delta \<le> date_max then Inr (d + delta)
      else Inl OverflowError)"

definition date_sub :: "date \<Rightarrow> int \<Rightarrow> error + date" where
  "date_sub d delta = date_add d (- delta)"

text \<open>\<^verbatim>\<open>str\<close> of an \<^verbatim>\<open>int\<close>, which is what an f-string prints for it.\<close>

function str_nat :: "nat \<Rightarrow> string" where
  "str_nat n =
     (if n < 10 then [''0123456789'' ! n]
      else str_nat (n div 10) @ [''0123456789'' ! (n mod 10)])"
  by pat_completeness auto
termination
  by (relation "measure (\<lambda>n. n)") auto

declare str_nat.simps [simp del]

definition str_int :: "int \<Rightarrow> string" where
  "str_int k = (if k < 0 then CHR ''-'' # str_nat (nat (- k)) else str_nat (nat k))"

text \<open>\<^verbatim>\<open>round(x, ndigits)\<close>: the nearest multiple of \<open>10 ^ - ndigits\<close>, a tie going to the even
  one. On an integer it is the identity.\<close>

definition round_half_even :: "real \<Rightarrow> int" where
  "round_half_even x =
     (let f = \<lfloor>x\<rfloor>; d = x - of_int f
      in if d < 1 / 2 then f
         else if 1 / 2 < d then f + 1
         else if even f then f else f + 1)"

definition round_py :: "real \<Rightarrow> nat \<Rightarrow> real" where
  "round_py x ndigits = of_int (round_half_even (x * 10 ^ ndigits)) / 10 ^ ndigits"

text \<open>True division \<^verbatim>\<open>a / b\<close>, which raises \<^verbatim>\<open>ZeroDivisionError\<close> on a zero divisor.\<close>

definition truediv :: "real \<Rightarrow> real \<Rightarrow> error + real" where
  "truediv a b = (if b = 0 then Inl ZeroDivisionError else Inr (a / b))"

text \<open>\<^verbatim>\<open>range(n)\<close>.\<close>

definition range_py :: "int \<Rightarrow> int list" where
  "range_py n = [0..n - 1]"

subsection \<open>The response models\<close>

text \<open>The field names of the pydantic models carry a prefix, since several models share
  field names and \<^verbatim>\<open>end\<close>, \<^verbatim>\<open>value\<close>, \<^verbatim>\<open>help\<close> and \<^verbatim>\<open>label\<close> are reserved here.\<close>

record KPI =
  kpi_label :: string
  kpi_value :: real
  kpi_delta :: "real option"
  kpi_help :: "string option"

record VelocityPoint =
  vp_key :: string
  vp_start :: date
  vp_end :: date
  vp_committed :: real
  vp_completed :: real

record CommitmentPoint =
  cp_sprint :: string
  cp_committed :: real
  cp_completed :: real
  cp_rollover :: real
  cp_percent :: real

record RolloverPoint =
  rp_sprint :: string
  rp_percent :: real
  rp_committed :: real
  rp_rolled :: real

record ScopeSummary =
  avg_added :: real
  avg_removed :: real
  avg_net_percent :: real

record SprintRow =
  sr_sprint :: string
  sr_start :: date
  sr_end :: date
  sr_committed :: real
  sr_completed :: real
  sr_completion_percent :: real
  sr_rollover_points :: real
  sr_rollover_percent :: real
  sr_dor_compliance_percent :: real
  sr_bugs_created :: int
  sr_items_reopened :: int

record TeamDashboardResponse =
  team_name :: string
  kpis :: "KPI list"
  velocity :: "VelocityPoint list"
  commitment_vs_completion :: "CommitmentPoint list"
  rollover_trend :: "RolloverPoint list"
  scope_change :: ScopeSummary
  sprint_rows :: "SprintRow list"

subsection \<open>The loop over the sprints\<close>

text \<open>The four lists the loop appends to.\<close>

record series =
  velocity_acc :: "VelocityPoint list"
  commit_vs :: "CommitmentPoint list"
  rollover_points :: "RolloverPoint list"
  rows :: "SprintRow list"

definition sprint_count :: int where
  "sprint_count = 8"

definition base_points :: "bool \<Rightarrow> int" where
  "base_points include_done_only = (if include_done_only then 30 else 35)"

text \<open>One iteration of \<^verbatim>\<open>for i in range(sprint_count)\<close>, in the order of the source.\<close>

definition sprint_body :: "date \<Rightarrow> bool \<Rightarrow> int \<Rightarrow> series \<Rightarrow> error + series" where
  "sprint_body today include_done_only i s =
     (let idx = sprint_count - i;
          sprint_name = ''Sprint '' @ str_int idx
      in case date_sub today (timedelta ((sprint_count - i) * 2) 0) of
           Inl e \<Rightarrow> Inl e
         | Inr start \<Rightarrow>
        (case date_add start (timedelta 0 13) of
           Inl e \<Rightarrow> Inl e
         | Inr end_date \<Rightarrow>
        (let committed = base_points include_done_only + (i mod 3) * 5 + 5;
             completed0 = max 0 (of_int (committed - (i mod 4) * 4 + ((i mod 2) * 2)));
             completed = round_py (min (of_int (committed + 3)) completed0) 1;
             rollover = max 0 (round_py (of_int committed - completed) 1);
             percent =
               round_py (if committed \<noteq> 0 then 100 * (completed / of_int committed) else 0) 1;
             roll_percent =
               round_py (if committed \<noteq> 0 then 100 * (rollover / of_int committed) else 0) 1;
             dor = round_py (of_int (80 + (i mod 5) * 3 - (i mod 2))) 1;
             bugs_created = 5 + (i mod 4) * 2;
             reopened = i mod 3
         in Inr
             \<lparr>velocity_acc = velocity_acc s @
                [\<lparr>vp_key = sprint_name, vp_start = start, vp_end = end_date,
                  vp_committed = of_int committed, vp_completed = completed\<rparr>],
              commit_vs = commit_vs s @
                [\<lparr>cp_sprint = sprint_name, cp_committed = of_int committed,
                  cp_completed = completed, cp_rollover = rollover, cp_percent = percent\<rparr>],
              rollover_points = rollover_points s @
                [\<lparr>rp_sprint = sprint_name, rp_percent = roll_percent,
                  rp_committed = of_int committed, rp_rolled = rollover\<rparr>],
              rows = rows s @
                [\<lparr>sr_sprint = sprint_name, sr_start = start, sr_end = end_date,
                  sr_committed = of_int committed, sr_completed = completed,
                  sr_completion_percent = percent, sr_rollover_points = rollover,
                  sr_rollover_percent = roll_percent, sr_dor_compliance_percent = dor,
                  sr_bugs_created = bugs_created, sr_items_reopened = reopened\<rparr>]\<rparr>)))"

text \<open>The \<^verbatim>\<open>for\<close> loop: the body runs on each index in turn, and the first exception ends it.\<close>

fun for_loop :: "(int \<Rightarrow> series \<Rightarrow> error + series) \<Rightarrow> int list \<Rightarrow> series \<Rightarrow> error + series" where
  "for_loop body [] s = Inr s"
| "for_loop body (i # is) s =
     (case body i s of Inl e \<Rightarrow> Inl e | Inr s' \<Rightarrow> for_loop body is s')"

subsection \<open>KPIs, scope summary and the response\<close>

text \<open>The endpoint. The parameters \<^verbatim>\<open>team_id\<close>, \<^verbatim>\<open>grouping\<close> and \<^verbatim>\<open>item_types\<close> are received
  and never read; \<^verbatim>\<open>team_name\<close> is the parameter \<open>team_name_arg\<close>.\<close>

definition team_dashboard ::
  "date \<Rightarrow> string \<Rightarrow> string \<Rightarrow> string \<Rightarrow> bool \<Rightarrow> string list \<Rightarrow> error + TeamDashboardResponse"
where
  "team_dashboard today team_id team_name_arg grouping include_done_only item_types =
     (case for_loop (sprint_body today include_done_only) (range_py sprint_count)
             \<lparr>velocity_acc = [], commit_vs = [], rollover_points = [], rows = []\<rparr> of
        Inl e \<Rightarrow> Inl e
      | Inr s \<Rightarrow>
     (case truediv (sum_list (map vp_completed (velocity_acc s)))
             (of_nat (length (velocity_acc s))) of
        Inl e \<Rightarrow> Inl e
      | Inr q1 \<Rightarrow>
     (case truediv (of_int (sum_list (map (\<lambda>_. 1) (velocity_acc s)) * 10))
             (of_nat (length (velocity_acc s))) of
        Inl e \<Rightarrow> Inl e
      | Inr q2 \<Rightarrow>
     (case truediv (sum_list (map cp_completed (commit_vs s)))
             (sum_list (map cp_committed (commit_vs s))) of
        Inl e \<Rightarrow> Inl e
      | Inr q3 \<Rightarrow>
     (case truediv (sum_list (map cp_rollover (commit_vs s)))
             (sum_list (map cp_committed (commit_vs s))) of
        Inl e \<Rightarrow> Inl e
      | Inr q4 \<Rightarrow>
     (case truediv (sum_list (map sr_dor_compliance_percent (rows s)))
             (of_nat (length (rows s))) of
        Inl e \<Rightarrow> Inl e
      | Inr q5 \<Rightarrow>
     (case truediv (of_int (sum_list (map sr_bugs_created (rows s))))
             (of_int (max 1 (int (length (rows s)) * 12))) of
        Inl e \<Rightarrow> Inl e
      | Inr q6 \<Rightarrow>
     (let avg_velocity = round_py q1 1;
          avg_throughput = round_py q2 1;
          commitment_completion = round_py (q3 * 100) 1;
          rollover_rate = round_py (q4 * 100) 1;
          dor_compliance = round_py q5 1;
          bug_ratio = round_py q6 2
      in Inr
         \<lparr>team_name = team_name_arg,
          kpis =
            [\<lparr>kpi_label = ''Velocity'', kpi_value = avg_velocity, kpi_delta = Some (6 / 5),
              kpi_help = Some ''Average story points completed per sprint in the selected range.''\<rparr>,
             \<lparr>kpi_label = ''Throughput'', kpi_value = avg_throughput,
              kpi_delta = Some (- (1 / 2)),
              kpi_help = Some ''Number of items completed per sprint in the selected range.''\<rparr>,
             \<lparr>kpi_label = ''Commitment completion %'', kpi_value = commitment_completion,
              kpi_delta = Some (21 / 10),
              kpi_help = Some ''Completed points divided by points committed at sprint start.''\<rparr>,
             \<lparr>kpi_label = ''Rollover rate %'', kpi_value = rollover_rate,
              kpi_delta = Some (- (7 / 5)),
              kpi_help = Some ''Rolled-over points divided by committed points.''\<rparr>,
             \<lparr>kpi_label = ''DoR compliance %'', kpi_value = dor_compliance,
              kpi_delta = Some (4 / 5),
              kpi_help =
                Some ''Percentage of items that met Definition of Ready before sprint start.''\<rparr>,
             \<lparr>kpi_label = ''Bug ratio'', kpi_value = bug_ratio, kpi_delta = Some (- (1 / 10)),
              kpi_help = Some ''Number of bugs divided by number of stories completed.''\<rparr>],
          velocity = rev (velocity_acc s),
          commitment_vs_completion = rev (commit_vs s),
          rollover_trend = rev (rollover_points s),
          scope_change =
            \<lparr>avg_added = round_py (16 / 5) 1, avg_removed = round_py (7 / 5) 1,
             avg_net_percent = round_py (13 / 2) 1\<rparr>,
          sprint_rows = rev (rows s)\<rparr>))))))))"

text \<open>The dates on which no date of the response leaves the range of \<^verbatim>\<open>date\<close>: the earliest
  sprint starts sixteen weeks before \<open>today\<close>.\<close>

definition valid_today :: "date \<Rightarrow> bool" where
  "valid_today today = (date_min + 112 \<le> today \<and> today \<le> date_max)"

section \<open>Evaluating the endpoint\<close>

text \<open>The response is determined by \<open>today\<close>, \<open>team_name\<close> and \<open>include_done_only\<close>. The two
  lemmas below run the loop and the KPI computations for each value of the flag, on any date
  for which the date arithmetic stays in range. The unfolding is done in two steps: first
  the loop, the dates and the labels, then the rounding, which is then applied to numerals
  only.\<close>

lemmas loop_defs =
  team_dashboard_def range_py_def upto_rec1 sprint_body_def valid_today_def date_min_def
  date_max_def date_sub_def date_add_def timedelta_def base_points_def Let_def sprint_count_def
  str_int_def str_nat.simps

lemmas round_defs = round_py_def round_half_even_def Let_def truediv_def

lemma team_dashboard_False:
  "valid_today today \<Longrightarrow>
   team_dashboard today team_id team_name_arg grouping False item_types =
  Inr \<lparr>team_name = team_name_arg,
         kpis =
           [\<lparr>kpi_label = ''Velocity'', kpi_value = 197 / 5,
               kpi_delta = Some (6 / 5),
               kpi_help =
                 Some
                  ''Average story points completed per sprint in the selected range.''\<rparr>,
            \<lparr>kpi_label = ''Throughput'', kpi_value = 10,
               kpi_delta = Some (- (1 / 2)),
               kpi_help =
                 Some
                  ''Number of items completed per sprint in the selected range.''\<rparr>,
            \<lparr>kpi_label = ''Commitment completion %'',
               kpi_value = 887 / 10, kpi_delta = Some (21 / 10),
               kpi_help =
                 Some
                  ''Completed points divided by points committed at sprint start.''\<rparr>,
            \<lparr>kpi_label = ''Rollover rate %'', kpi_value = 113 / 10,
               kpi_delta = Some (- (7 / 5)),
               kpi_help =
                 Some
                  ''Rolled-over points divided by committed points.''\<rparr>,
            \<lparr>kpi_label = ''DoR compliance %'', kpi_value = 422 / 5,
               kpi_delta = Some (4 / 5),
               kpi_help =
                 Some
                  ''Percentage of items that met Definition of Ready before sprint start.''\<rparr>,
            \<lparr>kpi_label = ''Bug ratio'', kpi_value = 67 / 100,
               kpi_delta = Some (- (1 / 10)),
               kpi_help =
                 Some
                  ''Number of bugs divided by number of stories completed.''\<rparr>],
         velocity =
           [\<lparr>vp_key = ''Sprint 1'', vp_start = today - 14,
               vp_end = today - 1, vp_committed = 45, vp_completed = 35\<rparr>,
            \<lparr>vp_key = ''Sprint 2'', vp_start = today - 28,
               vp_end = today - 15, vp_committed = 40, vp_completed = 32\<rparr>,
            \<lparr>vp_key = ''Sprint 3'', vp_start = today - 42,
               vp_end = today - 29, vp_committed = 50, vp_completed = 48\<rparr>,
            \<lparr>vp_key = ''Sprint 4'', vp_start = today - 56,
               vp_end = today - 43, vp_committed = 45, vp_completed = 45\<rparr>,
            \<lparr>vp_key = ''Sprint 5'', vp_start = today - 70,
               vp_end = today - 57, vp_committed = 40, vp_completed = 30\<rparr>,
            \<lparr>vp_key = ''Sprint 6'', vp_start = today - 84,
               vp_end = today - 71, vp_committed = 50, vp_completed = 42\<rparr>,
            \<lparr>vp_key = ''Sprint 7'', vp_start = today - 98,
               vp_end = today - 85, vp_committed = 45, vp_completed = 43\<rparr>,
            \<lparr>vp_key = ''Sprint 8'', vp_start = today - 112,
               vp_end = today - 99, vp_committed = 40,
               vp_completed = 40\<rparr>],
         commitment_vs_completion =
           [\<lparr>cp_sprint = ''Sprint 1'', cp_committed = 45,
               cp_completed = 35, cp_rollover = 10, cp_percent = 389 / 5\<rparr>,
            \<lparr>cp_sprint = ''Sprint 2'', cp_committed = 40,
               cp_completed = 32, cp_rollover = 8, cp_percent = 80\<rparr>,
            \<lparr>cp_sprint = ''Sprint 3'', cp_committed = 50,
               cp_completed = 48, cp_rollover = 2, cp_percent = 96\<rparr>,
            \<lparr>cp_sprint = ''Sprint 4'', cp_committed = 45,
               cp_completed = 45, cp_rollover = 0, cp_percent = 100\<rparr>,
            \<lparr>cp_sprint = ''Sprint 5'', cp_committed = 40,
               cp_completed = 30, cp_rollover = 10, cp_percent = 75\<rparr>,
            \<lparr>cp_sprint = ''Sprint 6'', cp_committed = 50,
               cp_completed = 42, cp_rollover = 8, cp_percent = 84\<rparr>,
            \<lparr>cp_sprint = ''Sprint 7'', cp_committed = 45,
               cp_completed = 43, cp_rollover = 2, cp_percent = 478 / 5\<rparr>,
            \<lparr>cp_sprint = ''Sprint 8'', cp_committed = 40,
               cp_completed = 40, cp_rollover = 0, cp_percent = 100\<rparr>],
         rollover_trend =
           [\<lparr>rp_sprint = ''Sprint 1'', rp_percent = 111 / 5,
               rp_committed = 45, rp_rolled = 10\<rparr>,
            \<lparr>rp_sprint = ''Sprint 2'', rp_percent = 20, rp_committed = 40,
               rp_rolled = 8\<rparr>,
            \<lparr>rp_sprint = ''Sprint 3'', rp_percent = 4, rp_committed = 50,
               rp_rolled = 2\<rparr>,
            \<lparr>rp_sprint = ''Sprint 4'', rp_percent = 0, rp_committed = 45,
               rp_rolled = 0\<rparr>,
            \<lparr>rp_sprint = ''Sprint 5'', rp_percent = 25, rp_committed = 40,
               rp_rolled = 10\<rparr>,
            \<lparr>rp_sprint = ''Sprint 6'', rp_percent = 16, rp_committed = 50,
               rp_rolled = 8\<rparr>,
            \<lparr>rp_sprint = ''Sprint 7'', rp_percent = 22 / 5,
               rp_committed = 45, rp_rolled = 2\<rparr>,
            \<lparr>rp_sprint = ''Sprint 8'', rp_percent = 0, rp_committed = 40,
               rp_rolled = 0\<rparr>],
         scope_change =
           \<lparr>avg_added = 16 / 5, avg_removed = 7 / 5,
              avg_net_percent = 13 / 2\<rparr>,
         sprint_rows =
           [\<lparr>sr_sprint = ''Sprint 1'', sr_start = today - 14,
               sr_end = today - 1, sr_committed = 45, sr_completed = 35,
               sr_completion_percent = 389 / 5, sr_rollover_points = 10,
               sr_rollover_percent = 111 / 5,
               sr_dor_compliance_percent = 85, sr_bugs_created = 11,
               sr_items_reopened = 1\<rparr>,
            \<lparr>sr_sprint = ''Sprint 2'', sr_start = today - 28,
               sr_end = today - 15, sr_committed = 40, sr_completed = 32,
               sr_completion_percent = 80, sr_rollover_points = 8,
               sr_rollover_percent = 20, sr_dor_compliance_percent = 83,
               sr_bugs_created = 9, sr_items_reopened = 0\<rparr>,
            \<lparr>sr_sprint = ''Sprint 3'', sr_start = today - 42,
               sr_end = today - 29, sr_committed = 50, sr_completed = 48,
               sr_completion_percent = 96, sr_rollover_points = 2,
               sr_rollover_percent = 4, sr_dor_compliance_percent = 79,
               sr_bugs_created = 7, sr_items_reopened = 2\<rparr>,
            \<lparr>sr_sprint = ''Sprint 4'', sr_start = today - 56,
               sr_end = today - 43, sr_committed = 45, sr_completed = 45,
               sr_completion_percent = 100, sr_rollover_points = 0,
               sr_rollover_percent = 0, sr_dor_compliance_percent = 92,
               sr_bugs_created = 5, sr_items_reopened = 1\<rparr>,
            \<lparr>sr_sprint = ''Sprint 5'', sr_start = today - 70,
               sr_end = today - 57, sr_committed = 40, sr_completed = 30,
               sr_completion_percent = 75, sr_rollover_points = 10,
               sr_rollover_percent = 25, sr_dor_compliance_percent = 88,
               sr_bugs_created = 11, sr_items_reopened = 0\<rparr>,
            \<lparr>sr_sprint = ''Sprint 6'', sr_start = today - 84,
               sr_end = today - 71, sr_committed = 50, sr_completed = 42,
               sr_completion_percent = 84, sr_rollover_points = 8,
               sr_rollover_percent = 16, sr_dor_compliance_percent = 86,
               sr_bugs_created = 9, sr_items_reopened = 2\<rparr>,
            \<lparr>sr_sprint = ''Sprint 7'', sr_start = today - 98,
               sr_end = today - 85, sr_committed = 45, sr_completed = 43,
               sr_completion_percent = 478 / 5, sr_rollover_points = 2,
               sr_rollover_percent = 22 / 5,
               sr_dor_compliance_percent = 82, sr_bugs_created = 7,
               sr_items_reopened = 1\<rparr>,
            \<lparr>sr_sprint = ''Sprint 8'', sr_start = today - 112,
               sr_end = today - 99, sr_committed = 40, sr_completed = 40,
               sr_completion_percent = 100, sr_rollover_points = 0,
               sr_rollover_percent = 0, sr_dor_compliance_percent = 80,
               sr_bugs_created = 5, sr_items_reopened = 0\<rparr>]\<rparr>"
  by (simp add: loop_defs) (simp add: round_defs)

lemma team_dashboard_True:
  "valid_today today \<Longrightarrow>
   team_dashboard today team_id team_name_arg grouping True item_types =
  Inr \<lparr>team_name = team_name_arg,
         kpis =
           [\<lparr>kpi_label = ''Velocity'', kpi_value = 172 / 5,
               kpi_delta = Some (6 / 5),
               kpi_help =
                 Some
                  ''Average story points completed per sprint in the selected range.''\<rparr>,
            \<lparr>kpi_label = ''Throughput'', kpi_value = 10,
               kpi_delta = Some (- (1 / 2)),
               kpi_help =
                 Some
                  ''Number of items completed per sprint in the selected range.''\<rparr>,
            \<lparr>kpi_label = ''Commitment completion %'',
               kpi_value = 873 / 10, kpi_delta = Some (21 / 10),
               kpi_help =
                 Some
                  ''Completed points divided by points committed at sprint start.''\<rparr>,
            \<lparr>kpi_label = ''Rollover rate %'', kpi_value = 127 / 10,
               kpi_delta = Some (- (7 / 5)),
               kpi_help =
                 Some
                  ''Rolled-over points divided by committed points.''\<rparr>,
            \<lparr>kpi_label = ''DoR compliance %'', kpi_value = 422 / 5,
               kpi_delta = Some (4 / 5),
               kpi_help =
                 Some
                  ''Percentage of items that met Definition of Ready before sprint start.''\<rparr>,
            \<lparr>kpi_label = ''Bug ratio'', kpi_value = 67 / 100,
               kpi_delta = Some (- (1 / 10)),
               kpi_help =
                 Some
                  ''Number of bugs divided by number of stories completed.''\<rparr>],
         velocity =
           [\<lparr>vp_key = ''Sprint 1'', vp_start = today - 14,
               vp_end = today - 1, vp_committed = 40, vp_completed = 30\<rparr>,
            \<lparr>vp_key = ''Sprint 2'', vp_start = today - 28,
               vp_end = today - 15, vp_committed = 35, vp_completed = 27\<rparr>,
            \<lparr>vp_key = ''Sprint 3'', vp_start = today - 42,
               vp_end = today - 29, vp_committed = 45, vp_completed = 43\<rparr>,
            \<lparr>vp_key = ''Sprint 4'', vp_start = today - 56,
               vp_end = today - 43, vp_committed = 40, vp_completed = 40\<rparr>,
            \<lparr>vp_key = ''Sprint 5'', vp_start = today - 70,
               vp_end = today - 57, vp_committed = 35, vp_completed = 25\<rparr>,
            \<lparr>vp_key = ''Sprint 6'', vp_start = today - 84,
               vp_end = today - 71, vp_committed = 45, vp_completed = 37\<rparr>,
            \<lparr>vp_key = ''Sprint 7'', vp_start = today - 98,
               vp_end = today - 85, vp_committed = 40, vp_completed = 38\<rparr>,
            \<lparr>vp_key = ''Sprint 8'', vp_start = today - 112,
               vp_end = today - 99, vp_committed = 35,
               vp_completed = 35\<rparr>],
         commitment_vs_completion =
           [\<lparr>cp_sprint = ''Sprint 1'', cp_committed = 40,
               cp_completed = 30, cp_rollover = 10, cp_percent = 75\<rparr>,
            \<lparr>cp_sprint = ''Sprint 2'', cp_committed = 35,
               cp_completed = 27, cp_rollover = 8, cp_percent = 771 / 10\<rparr>,
            \<lparr>cp_sprint = ''Sprint 3'', cp_committed = 45,
               cp_completed = 43, cp_rollover = 2, cp_percent = 478 / 5\<rparr>,
            \<lparr>cp_sprint = ''Sprint 4'', cp_committed = 40,
               cp_completed = 40, cp_rollover = 0, cp_percent = 100\<rparr>,
            \<lparr>cp_sprint = ''Sprint 5'', cp_committed = 35,
               cp_completed = 25, cp_rollover = 10, cp_percent = 357 / 5\<rparr>,
            \<lparr>cp_sprint = ''Sprint 6'', cp_committed = 45,
               cp_completed = 37, cp_rollover = 8, cp_percent = 411 / 5\<rparr>,
            \<lparr>cp_sprint = ''Sprint 7'', cp_committed = 40,
               cp_completed = 38, cp_rollover = 2, cp_percent = 95\<rparr>,
            \<lparr>cp_sprint = ''Sprint 8'', cp_committed = 35,
               cp_completed = 35, cp_rollover = 0, cp_percent = 100\<rparr>],
         rollover_trend =
           [\<lparr>rp_sprint = ''Sprint 1'', rp_percent = 25, rp_committed = 40,
               rp_rolled = 10\<rparr>,
            \<lparr>rp_sprint = ''Sprint 2'', rp_percent = 229 / 10,
               rp_committed = 35, rp_rolled = 8\<rparr>,
            \<lparr>rp_sprint = ''Sprint 3'', rp_percent = 22 / 5,
               rp_committed = 45, rp_rolled = 2\<rparr>,
            \<lparr>rp_sprint = ''Sprint 4'', rp_percent = 0, rp_committed = 40,
               rp_rolled = 0\<rparr>,
            \<lparr>rp_sprint = ''Sprint 5'', rp_percent = 143 / 5,
               rp_committed = 35, rp_rolled = 10\<rparr>,
            \<lparr>rp_sprint = ''Sprint 6'', rp_percent = 89 / 5,
               rp_committed = 45, rp_rolled = 8\<rparr>,
            \<lparr>rp_sprint = ''Sprint 7'', rp_percent = 5, rp_committed = 40,
               rp_rolled = 2\<rparr>,
            \<lparr>rp_sprint = ''Sprint 8'', rp_percent = 0, rp_committed = 35,
               rp_rolled = 0\<rparr>],
         scope_change =
           \<lparr>avg_added = 16 / 5, avg_removed = 7 / 5,
              avg_net_percent = 13 / 2\<rparr>,
         sprint_rows =
           [\<lparr>sr_sprint = ''Sprint 1'', sr_start = today - 14,
               sr_end = today - 1, sr_committed = 40, sr_completed = 30,
               sr_completion_percent = 75, sr_rollover_points = 10,
               sr_rollover_percent = 25, sr_dor_compliance_percent = 85,
               sr_bugs_created = 11, sr_items_reopened = 1\<rparr>,
            \<lparr>sr_sprint = ''Sprint 2'', sr_start = today - 28,
               sr_end = today - 15, sr_committed = 35, sr_completed = 27,
               sr_completion_percent = 771 / 10, sr_rollover_points = 8,
               sr_rollover_percent = 229 / 10,
               sr_dor_compliance_percent = 83, sr_bugs_created = 9,
               sr_items_reopened = 0\<rparr>,
            \<lparr>sr_sprint = ''Sprint 3'', sr_start = today - 42,
               sr_end = today - 29, sr_committed = 45, sr_completed = 43,
               sr_completion_percent = 478 / 5, sr_rollover_points = 2,
               sr_rollover_percent = 22 / 5,
               sr_dor_compliance_percent = 79, sr_bugs_created = 7,
               sr_items_reopened = 2\<rparr>,
            \<lparr>sr_sprint = ''Sprint 4'', sr_start = today - 56,
               sr_end = today - 43, sr_committed = 40, sr_completed = 40,
               sr_completion_percent = 100, sr_rollover_points = 0,
               sr_rollover_percent = 0, sr_dor_compliance_percent = 92,
               sr_bugs_created = 5, sr_items_reopened = 1\<rparr>,
            \<lparr>sr_sprint = ''Sprint 5'', sr_start = today - 70,
               sr_end = today - 57, sr_committed = 35, sr_completed = 25,
               sr_completion_percent = 357 / 5, sr_rollover_points = 10,
               sr_rollover_percent = 143 / 5,
               sr_dor_compliance_percent = 88, sr_bugs_created = 11,
               sr_items_reopened = 0\<rparr>,
            \<lparr>sr_sprint = ''Sprint 6'', sr_start = today - 84,
               sr_end = today - 71, sr_committed = 45, sr_completed = 37,
               sr_completion_percent = 411 / 5, sr_rollover_points = 8,
               sr_rollover_percent = 89 / 5,
               sr_dor_compliance_percent = 86, sr_bugs_created = 9,
               sr_items_reopened = 2\<rparr>,
            \<lparr>sr_sprint = ''Sprint 7'', sr_start = today - 98,
               sr_end = today - 85, sr_committed = 40, sr_completed = 38,
               sr_completion_percent = 95, sr_rollover_points = 2,
               sr_rollover_percent = 5, sr_dor_compliance_percent = 82,
               sr_bugs_created = 7, sr_items_reopened = 1\<rparr>,
            \<lparr>sr_sprint = ''Sprint 8'', sr_start = today - 112,
               sr_end = today - 99, sr_committed = 35, sr_completed = 35,
               sr_completion_percent = 100, sr_rollover_points = 0,
               sr_rollover_percent = 0, sr_dor_compliance_percent = 80,
               sr_bugs_created = 5, sr_items_reopened = 0\<rparr>]\<rparr>"
  by (simp add: loop_defs) (simp add: round_defs)

text \<open>On a date within sixteen weeks of \<^verbatim>\<open>date.min\<close> the first iteration already fails.\<close>

lemma team_dashboard_overflow:
  "date_min \<le> today \<Longrightarrow> today \<le> date_max \<Longrightarrow> \<not> valid_today today \<Longrightarrow>
   team_dashboard today team_id team_name_arg grouping include_done_only item_types =
   Inl OverflowError"
  by (simp add: team_dashboard_def range_py_def upto_rec1 sprint_body_def valid_today_def
      date_min_def date_max_def date_sub_def date_add_def timedelta_def sprint_count_def)

section \<open>The claims of the specification\<close>

text \<open>In every statement below \<open>today\<close> ranges over the dates accepted by \<open>valid_today\<close>, and
  the other parameters of the endpoint are arbitrary.\<close>

subsection \<open>Order and size of the series\<close>

text \<open>Claim C1. Each of the four series of the response has exactly eight records. Their
  order is not the one the claim states: the loop gives the label \<^verbatim>\<open>Sprint 8\<close> to the first
  (oldest) sprint and \<^verbatim>\<open>Sprint 1\<close> to the last, and the final reversal puts \<^verbatim>\<open>Sprint 1\<close> first
  and \<^verbatim>\<open>Sprint 8\<close> last. The source's remark on the reversal reads ``Sort by sprint name
  numeric part descending (latest first)''; the dates do descend, the numeric parts of the
  names ascend.\<close>

theorem series_labels_ascending:
  assumes "valid_today today"
  shows "\<exists>r. team_dashboard today team_id name grouping include_done_only item_types = Inr r \<and>
     length (velocity r) = 8 \<and> length (commitment_vs_completion r) = 8 \<and>
     length (rollover_trend r) = 8 \<and> length (sprint_rows r) = 8 \<and>
     map vp_key (velocity r) =
       [''Sprint 1'', ''Sprint 2'', ''Sprint 3'', ''Sprint 4'', ''Sprint 5'', ''Sprint 6'',
        ''Sprint 7'', ''Sprint 8''] \<and>
     map cp_sprint (commitment_vs_completion r) = map vp_key (velocity r) \<and>
     map rp_sprint (rollover_trend r) = map vp_key (velocity r) \<and>
     map sr_sprint (sprint_rows r) = map vp_key (velocity r) \<and>
     map sr_start (sprint_rows r) =
       [today - 14, today - 28, today - 42, today - 56, today - 70, today - 84, today - 98,
        today - 112]"
proof (cases include_done_only)
  case True
  then show ?thesis by (simp add: team_dashboard_True [OF assms])
next
  case False
  then show ?thesis by (simp add: team_dashboard_False [OF assms])
qed

theorem series_labels_ascending_witness:
  "valid_today 739924 \<and>
   (\<exists>r. team_dashboard 739924 ''team-1'' ''Alpha Team'' ''By sprint'' False
           [''Stories'', ''Bugs'', ''Tasks'', ''Epics''] = Inr r \<and>
     length (velocity r) = 8 \<and> length (commitment_vs_completion r) = 8 \<and>
     length (rollover_trend r) = 8 \<and> length (sprint_rows r) = 8 \<and>
     map vp_key (velocity r) =
       [''Sprint 1'', ''Sprint 2'', ''Sprint 3'', ''Sprint 4'', ''Sprint 5'', ''Sprint 6'',
        ''Sprint 7'', ''Sprint 8''] \<and>
     map cp_sprint (commitment_vs_completion r) = map vp_key (velocity r) \<and>
     map rp_sprint (rollover_trend r) = map vp_key (velocity r) \<and>
     map sr_sprint (sprint_rows r) = map vp_key (velocity r) \<and>
     map sr_start (sprint_rows r) =
       [739924 - 14, 739924 - 28, 739924 - 42, 739924 - 56, 739924 - 70, 739924 - 84,
        739924 - 98, 739924 - 112])"
proof -
  have v: "valid_today 739924"
    by (simp add: valid_today_def date_min_def date_max_def)
  show ?thesis
    by (rule conjI [OF v series_labels_ascending [OF v]])
qed

subsection \<open>Definition-of-Ready compliance\<close>

text \<open>Claim C2, as stated, asks for an input and a sprint whose
  \<^verbatim>\<open>dor_compliance_percent\<close> exceeds 100. No response of the endpoint has one.\<close>

theorem dor_never_exceeds_100:
  "\<not> (\<exists>today team_id name grouping include_done_only item_types r.
         valid_today today \<and>
         team_dashboard today team_id name grouping include_done_only item_types = Inr r \<and>
         (\<exists>x \<in> set (sprint_rows r). 100 < sr_dor_compliance_percent x))"
proof
  assume "\<exists>today team_id name grouping include_done_only item_types r.
         valid_today today \<and>
         team_dashboard today team_id name grouping include_done_only item_types = Inr r \<and>
         (\<exists>x \<in> set (sprint_rows r). 100 < sr_dor_compliance_percent x)"
  then obtain today team_id name grouping include_done_only item_types r
    where v: "valid_today today"
      and r: "team_dashboard today team_id name grouping include_done_only item_types = Inr r"
      and x: "\<exists>x \<in> set (sprint_rows r). 100 < sr_dor_compliance_percent x"
    by blast
  show False
  proof (cases include_done_only)
    case True
    with r x show False by (auto simp add: team_dashboard_True [OF v])
  next
    case False
    with r x show False by (auto simp add: team_dashboard_False [OF v])
  qed
qed

text \<open>Claim C2, amended. The record generated at offset \<open>i\<close> carries
  \<^verbatim>\<open>round(80 + (i%5)*3 - (i%2), 1)\<close>, with no clamping applied; over the eight offsets the value
  stays between 79 and 92, so it never exceeds 100.\<close>

theorem dor_formula_range:
  assumes "valid_today today"
  shows "\<exists>r. team_dashboard today team_id name grouping include_done_only item_types = Inr r \<and>
     map sr_dor_compliance_percent (rev (sprint_rows r)) =
       map (\<lambda>i. round_py (of_int (80 + (i mod 5) * 3 - (i mod 2))) 1) (range_py sprint_count) \<and>
     (\<forall>x \<in> set (sprint_rows r).
        79 \<le> sr_dor_compliance_percent x \<and> sr_dor_compliance_percent x \<le> 92)"
proof (cases include_done_only)
  case True
  then show ?thesis
    by (simp add: team_dashboard_True [OF assms] range_py_def sprint_count_def upto_rec1
        round_py_def round_half_even_def)
next
  case False
  then show ?thesis
    by (simp add: team_dashboard_False [OF assms] range_py_def sprint_count_def upto_rec1
        round_py_def round_half_even_def)
qed

theorem dor_formula_range_witness:
  "valid_today 739924 \<and>
   (\<exists>r. team_dashboard 739924 ''team-1'' ''Alpha Team'' ''By sprint'' True
           [''Stories'', ''Bugs''] = Inr r \<and>
     map sr_dor_compliance_percent (rev (sprint_rows r)) =
       map (\<lambda>i. round_py (of_int (80 + (i mod 5) * 3 - (i mod 2))) 1) (range_py sprint_count) \<and>
     (\<forall>x \<in> set (sprint_rows r).
        79 \<le> sr_dor_compliance_percent x \<and> sr_dor_compliance_percent x \<le> 92))"
proof -
  have v: "valid_today 739924"
    by (simp add: valid_today_def date_min_def date_max_def)
  show ?thesis
    by (rule conjI [OF v dor_formula_range [OF v]])
qed

subsection \<open>Rollover and completion percent\<close>

text \<open>Claim C3. In every sprint row, \<^verbatim>\<open>rollover_points\<close> is
  \<^verbatim>\<open>max(0, committed - completed)\<close> rounded to one decimal, and \<^verbatim>\<open>completion_percent\<close> is
  \<^verbatim>\<open>round(100 * completed / committed, 1)\<close>, or 0 when \<^verbatim>\<open>committed\<close> is 0. The same holds of the
  commitment points, and the rollover trend carries the same rolled points.\<close>

theorem rollover_and_completion_percent:
  assumes "valid_today today"
  shows "\<exists>r. team_dashboard today team_id name grouping include_done_only item_types = Inr r \<and>
     (\<forall>x \<in> set (sprint_rows r).
        sr_rollover_points x = round_py (max 0 (sr_committed x - sr_completed x)) 1 \<and>
        sr_completion_percent x =
          (if sr_committed x = 0 then 0
           else round_py (100 * sr_completed x / sr_committed x) 1)) \<and>
     (\<forall>x \<in> set (commitment_vs_completion r).
        cp_rollover x = round_py (max 0 (cp_committed x - cp_completed x)) 1 \<and>
        cp_percent x =
          (if cp_committed x = 0 then 0
           else round_py (100 * cp_completed x / cp_committed x) 1)) \<and>
     map rp_rolled (rollover_trend r) = map sr_rollover_points (sprint_rows r)"
proof (cases include_done_only)
  case True
  then show ?thesis
    by (simp add: team_dashboard_True [OF assms] round_py_def round_half_even_def)
next
  case False
  then show ?thesis
    by (simp add: team_dashboard_False [OF assms] round_py_def round_half_even_def)
qed

theorem rollover_and_completion_percent_witness:
  "valid_today 739924 \<and>
   (\<exists>r. team_dashboard 739924 ''team-1'' ''Alpha Team'' ''By sprint'' False
           [''Stories'', ''Bugs'', ''Tasks'', ''Epics''] = Inr r \<and>
       (\<forall>x \<in> set (sprint_rows r).
          sr_rollover_points x = round_py (max 0 (sr_committed x - sr_completed x)) 1 \<and>
          sr_completion_percent x =
            (if sr_committed x = 0 then 0
             else round_py (100 * sr_completed x / sr_committed x) 1)) \<and>
       (\<forall>x \<in> set (commitment_vs_completion r).
          cp_rollover x = round_py (max 0 (cp_committed x - cp_completed x)) 1 \<and>
          cp_percent x =
            (if cp_committed x = 0 then 0
             else round_py (100 * cp_completed x / cp_committed x) 1)) \<and>
       map rp_rolled (rollover_trend r) = map sr_rollover_points (sprint_rows r))"
proof -
  have v: "valid_today 739924"
    by (simp add: valid_today_def date_min_def date_max_def)
  show ?thesis
    by (rule conjI [OF v rollover_and_completion_percent [OF v]])
qed

subsection \<open>Bounds on the completed points\<close>

text \<open>Claim C4. Every generated record has \<^verbatim>\<open>0 <= completed <= committed + 3\<close>, in
  each series that carries both fields.\<close>

theorem completed_bounds:
  assumes "valid_today today"
  shows "\<exists>r. team_dashboard today team_id name grouping include_done_only item_types = Inr r \<and>
     (\<forall>x \<in> set (sprint_rows r). 0 \<le> sr_completed x \<and> sr_completed x \<le> sr_committed x + 3) \<and>
     (\<forall>x \<in> set (velocity r). 0 \<le> vp_completed x \<and> vp_completed x \<le> vp_committed x + 3) \<and>
     (\<forall>x \<in> set (commitment_vs_completion r).
        0 \<le> cp_completed x \<and> cp_completed x \<le> cp_committed x + 3)"
proof (cases include_done_only)
  case True
  then show ?thesis by (simp add: team_dashboard_True [OF assms])
next
  case False
  then show ?thesis by (simp add: team_dashboard_False [OF assms])
qed

theorem completed_bounds_witness:
  "valid_today 739924 \<and>
   (\<exists>r. team_dashboard 739924 ''team-1'' ''Alpha Team'' ''By week'' True
           [''Stories'', ''Bugs'', ''Tasks'', ''Epics''] = Inr r \<and>
       (\<forall>x \<in> set (sprint_rows r). 0 \<le> sr_completed x \<and> sr_completed x \<le> sr_committed x + 3) \<and>
       (\<forall>x \<in> set (velocity r). 0 \<le> vp_completed x \<and> vp_completed x \<le> vp_committed x + 3) \<and>
       (\<forall>x \<in> set (commitment_vs_completion r).
          0 \<le> cp_completed x \<and> cp_completed x \<le> cp_committed x + 3))"
proof -
  have v: "valid_today 739924"
    by (simp add: valid_today_def date_min_def date_max_def)
  show ?thesis
    by (rule conjI [OF v completed_bounds [OF v]])
qed

subsection \<open>The commitment completion KPI\<close>

text \<open>Claim C5. The response has exactly one KPI labelled \<^verbatim>\<open>Commitment completion %\<close>, and its
  value is the sum of \<^verbatim>\<open>completed\<close> over the eight commitment points, divided by the sum
  of \<^verbatim>\<open>committed\<close> (which is not zero), times 100, rounded to one decimal.\<close>

theorem commitment_completion_kpi:
  assumes "valid_today today"
  shows "\<exists>r. team_dashboard today team_id name grouping include_done_only item_types = Inr r \<and>
     length (commitment_vs_completion r) = 8 \<and>
     sum_list (map cp_committed (commitment_vs_completion r)) \<noteq> 0 \<and>
     map kpi_value (filter (\<lambda>k. kpi_label k = ''Commitment completion %'') (kpis r)) =
       [round_py
          (sum_list (map cp_completed (commitment_vs_completion r)) /
           sum_list (map cp_committed (commitment_vs_completion r)) * 100) 1]"
proof (cases include_done_only)
  case True
  then show ?thesis
    by (simp add: team_dashboard_True [OF assms] round_py_def round_half_even_def)
next
  case False
  then show ?thesis
    by (simp add: team_dashboard_False [OF assms] round_py_def round_half_even_def)
qed

theorem commitment_completion_kpi_witness:
  "valid_today 739924 \<and>
   (\<exists>r. team_dashboard 739924 ''team-1'' ''Alpha Team'' ''By month'' False
           [''Stories'', ''Bugs'', ''Tasks'', ''Epics''] = Inr r \<and>
       length (commitment_vs_completion r) = 8 \<and>
       sum_list (map cp_committed (commitment_vs_completion r)) \<noteq> 0 \<and>
       map kpi_value (filter (\<lambda>k. kpi_label k = ''Commitment completion %'') (kpis r)) =
         [round_py
            (sum_list (map cp_completed (commitment_vs_completion r)) /
             sum_list (map cp_committed (commitment_vs_completion r)) * 100) 1])"
proof -
  have v: "valid_today 739924"
    by (simp add: valid_today_def date_min_def date_max_def)
  show ?thesis
    by (rule conjI [OF v commitment_completion_kpi [OF v]])
qed

subsection \<open>Parameters that are not read\<close>

text \<open>Claim C6. Two calls on the same date with the same \<^verbatim>\<open>team_name\<close> and
  \<^verbatim>\<open>include_done_only\<close> return the same response whatever \<^verbatim>\<open>team_id\<close>, \<^verbatim>\<open>grouping\<close> and
  \<^verbatim>\<open>item_types\<close> are (for every \<^verbatim>\<open>grouping\<close>, so in particular for the three labels the
  route accepts), and the response echoes \<^verbatim>\<open>team_name\<close>.\<close>

theorem ignored_parameters:
  assumes "valid_today today"
  shows "\<exists>r. team_dashboard today team_id1 name grouping1 include_done_only item_types1 = Inr r \<and>
     team_dashboard today team_id2 name grouping2 include_done_only item_types2 = Inr r \<and>
     team_name r = name"
proof (cases include_done_only)
  case True
  then show ?thesis by (simp add: team_dashboard_True [OF assms])
next
  case False
  then show ?thesis by (simp add: team_dashboard_False [OF assms])
qed

theorem ignored_parameters_witness:
  "valid_today 739924 \<and>
   (\<exists>r. team_dashboard 739924 ''team-1'' ''Alpha Team'' ''By week'' True
           [''Stories'', ''Bugs'', ''Tasks'', ''Epics''] = Inr r \<and>
       team_dashboard 739924 ''team-2'' ''Alpha Team'' ''By month'' True [''Bugs''] = Inr r \<and>
       team_name r = ''Alpha Team'')"
proof -
  have v: "valid_today 739924"
    by (simp add: valid_today_def date_min_def date_max_def)
  show ?thesis
    by (rule conjI [OF v ignored_parameters [OF v]])
qed

subsection \<open>The scope summary\<close>

text \<open>Claim C7. The \<^verbatim>\<open>scope_change\<close> field is the triple 3.2, 1.4, 6.5 for every
  input.\<close>

theorem scope_change_constant:
  assumes "valid_today today"
  shows "\<exists>r. team_dashboard today team_id name grouping include_done_only item_types = Inr r \<and>
     scope_change r = \<lparr>avg_added = 3.2, avg_removed = 1.4, avg_net_percent = 6.5\<rparr>"
proof (cases include_done_only)
  case True
  then show ?thesis by (simp add: team_dashboard_True [OF assms])
next
  case False
  then show ?thesis by (simp add: team_dashboard_False [OF assms])
qed

theorem scope_change_constant_witness:
  "valid_today 739924 \<and>
   (\<exists>r. team_dashboard 739924 ''team-7'' ''Beta Team'' ''By sprint'' True [] = Inr r \<and>
       scope_change r = \<lparr>avg_added = 3.2, avg_removed = 1.4, avg_net_percent = 6.5\<rparr>)"
proof -
  have v: "valid_today 739924"
    by (simp add: valid_today_def date_min_def date_max_def)
  show ?thesis
    by (rule conjI [OF v scope_change_constant [OF v]])
qed

subsection \<open>The two worked examples\<close>

text \<open>Claim C8. With \<^verbatim>\<open>include_done_only = false\<close>, the record generated at offset 3
  has committed 40, completed 30, rollover 10.0 and completion percent 75.0, and the record
  generated at offset 0 has committed 40, completed 40, rollover 0.0 and completion percent
  100.0. The record generated at offset \<open>i\<close> is the \<open>i\<close>-th of the reversed output series.\<close>

theorem examples_offsets_3_and_0:
  assumes "valid_today today"
  shows "\<exists>r. team_dashboard today team_id name grouping False item_types = Inr r \<and>
     sr_sprint (rev (sprint_rows r) ! 3) = ''Sprint 5'' \<and>
     sr_committed (rev (sprint_rows r) ! 3) = 40 \<and>
     sr_completed (rev (sprint_rows r) ! 3) = 30 \<and>
     sr_rollover_points (rev (sprint_rows r) ! 3) = 10 \<and>
     sr_completion_percent (rev (sprint_rows r) ! 3) = 75 \<and>
     sr_sprint (rev (sprint_rows r) ! 0) = ''Sprint 8'' \<and>
     sr_committed (rev (sprint_rows r) ! 0) = 40 \<and>
     sr_completed (rev (sprint_rows r) ! 0) = 40 \<and>
     sr_rollover_points (rev (sprint_rows r) ! 0) = 0 \<and>
     sr_completion_percent (rev (sprint_rows r) ! 0) = 100 \<and>
     rev (commitment_vs_completion r) ! 3 =
       \<lparr>cp_sprint = ''Sprint 5'', cp_committed = 40, cp_completed = 30, cp_rollover = 10,
        cp_percent = 75\<rparr> \<and>
     rev (commitment_vs_completion r) ! 0 =
       \<lparr>cp_sprint = ''Sprint 8'', cp_committed = 40, cp_completed = 40, cp_rollover = 0,
        cp_percent = 100\<rparr>"
  by (simp add: team_dashboard_False [OF assms])

theorem examples_offsets_3_and_0_witness:
  "valid_today 739924 \<and>
   (\<exists>r. team_dashboard 739924 ''team-1'' ''Alpha Team'' ''By sprint'' False
           [''Stories'', ''Bugs'', ''Tasks'', ''Epics''] = Inr r \<and>
       sr_sprint (rev (sprint_rows r) ! 3) = ''Sprint 5'' \<and>
       sr_committed (rev (sprint_rows r) ! 3) = 40 \<and>
       sr_completed (rev (sprint_rows r) ! 3) = 30 \<and>
       sr_rollover_points (rev (sprint_rows r) ! 3) = 10 \<and>
       sr_completion_percent (rev (sprint_rows r) ! 3) = 75 \<and>
       sr_sprint (rev (sprint_rows r) ! 0) = ''Sprint 8'' \<and>
       sr_committed (rev (sprint_rows r) ! 0) = 40 \<and>
       sr_completed (rev (sprint_rows r) ! 0) = 40 \<and>
       sr_rollover_points (rev (sprint_rows r) ! 0) = 0 \<and>
       sr_completion_percent (rev (sprint_rows r) ! 0) = 100 \<and>
       rev (commitment_vs_completion r) ! 3 =
         \<lparr>cp_sprint = ''Sprint 5'', cp_committed = 40, cp_completed = 30, cp_rollover = 10,
          cp_percent = 75\<rparr> \<and>
       rev (commitment_vs_completion r) ! 0 =
         \<lparr>cp_sprint = ''Sprint 8'', cp_committed = 40, cp_completed = 40, cp_rollover = 0,
          cp_percent = 100\<rparr>)"
proof -
  have v: "valid_today 739924"
    by (simp add: valid_today_def date_min_def date_max_def)
  show ?thesis
    by (rule conjI [OF v examples_offsets_3_and_0 [OF v]])
qed

subsection \<open>Completed never exceeds committed\<close>

text \<open>Claim C9. Every generated record has \<^verbatim>\<open>completed <= committed\<close>; its rollover is
  exactly \<^verbatim>\<open>committed - completed\<close> and its completion percent is at most 100.\<close>

theorem completed_at_most_committed:
  assumes "valid_today today"
  shows "\<exists>r. team_dashboard today team_id name grouping include_done_only item_types = Inr r \<and>
     (\<forall>x \<in> set (sprint_rows r).
        sr_completed x \<le> sr_committed x \<and>
        sr_rollover_points x = sr_committed x - sr_completed x \<and>
        sr_completion_percent x \<le> 100) \<and>
     (\<forall>x \<in> set (commitment_vs_completion r).
        cp_completed x \<le> cp_committed x \<and>
        cp_rollover x = cp_committed x - cp_completed x \<and>
        cp_percent x \<le> 100)"
proof (cases include_done_only)
  case True
  then show ?thesis by (simp add: team_dashboard_True [OF assms])
next
  case False
  then show ?thesis by (simp add: team_dashboard_False [OF assms])
qed

theorem completed_at_most_committed_witness:
  "valid_today 739924 \<and>
   (\<exists>r. team_dashboard 739924 ''team-1'' ''Alpha Team'' ''By sprint'' True
           [''Stories'', ''Bugs'', ''Tasks'', ''Epics''] = Inr r \<and>
       (\<forall>x \<in> set (sprint_rows r).
          sr_completed x \<le> sr_committed x \<and>
          sr_rollover_points x = sr_committed x - sr_completed x \<and>
          sr_completion_percent x \<le> 100) \<and>
       (\<forall>x \<in> set (commitment_vs_completion r).
          cp_completed x \<le> cp_committed x \<and>
          cp_rollover x = cp_committed x - cp_completed x \<and>
          cp_percent x \<le> 100))"
proof -
  have v: "valid_today 739924"
    by (simp add: valid_today_def date_min_def date_max_def)
  show ?thesis
    by (rule conjI [OF v completed_at_most_committed [OF v]])
qed

subsection \<open>Throughput and bug ratio\<close>

text \<open>Claim C10. The KPI labelled \<^verbatim>\<open>Throughput\<close> is 10.0 and the KPI labelled
  \<^verbatim>\<open>Bug ratio\<close> is 0.67, for every input.\<close>

theorem throughput_and_bug_ratio:
  assumes "valid_today today"
  shows "\<exists>r. team_dashboard today team_id name grouping include_done_only item_types = Inr r \<and>
     map kpi_value (filter (\<lambda>k. kpi_label k = ''Throughput'') (kpis r)) = [10.0] \<and>
     map kpi_value (filter (\<lambda>k. kpi_label k = ''Bug ratio'') (kpis r)) = [0.67]"
proof (cases include_done_only)
  case True
  then show ?thesis by (simp add: team_dashboard_True [OF assms])
next
  case False
  then show ?thesis by (simp add: team_dashboard_False [OF assms])
qed

theorem throughput_and_bug_ratio_witness:
  "valid_today 739924 \<and>
   (\<exists>r. team_dashboard 739924 ''team-1'' ''Alpha Team'' ''By sprint'' False
           [''Epics''] = Inr r \<and>
       map kpi_value (filter (\<lambda>k. kpi_label k = ''Throughput'') (kpis r)) = [10.0] \<and>
       map kpi_value (filter (\<lambda>k. kpi_label k = ''Bug ratio'') (kpis r)) = [0.67])"
proof -
  have v: "valid_today 739924"
    by (simp add: valid_today_def date_min_def date_max_def)
  show ?thesis
    by (rule conjI [OF v throughput_and_bug_ratio [OF v]])
qed

end
